theory Spec2Isabelle
  imports Main
begin

section \<open>Errors, durations and channels\<close>

text \<open>
  Go errors are values. \<open>EventError\<close> is the server-sent error \<open>{code, message}\<close>;
  \<open>Errorf\<close> is an error built by \<open>fmt.Errorf\<close> from a message; \<open>Wrapf\<close> is
  \<open>fmt.Errorf\<close> with a \<open>%w\<close> verb around another error; \<open>External\<close> is an error
  returned by a library outside the package (dial, receive, send, close, JSON).
\<close>

datatype err =
    EventError int string
  | Errorf string
  | Wrapf string err
  | External string

text \<open>
  \<open>time.Duration\<close> is a signed 64-bit count of nanoseconds. Durations are integers
  here and the product of two durations is wrapped to 64 bits, as Go's \<open>*\<close> does.
\<close>

type_synonym duration = int

definition wrap64 :: "int \<Rightarrow> int" where
  "wrap64 x = (x + 2 ^ 63) mod 2 ^ 64 - 2 ^ 63"

definition dmul :: "duration \<Rightarrow> duration \<Rightarrow> duration" where
  "dmul a b = wrap64 (a * b)"

definition Second :: duration where
  "Second = 1000000000"

definition defaultPongTimeout :: duration where
  "defaultPongTimeout = dmul 30 Second"

definition maxPongFailures :: int where
  "maxPongFailures = 2"

definition initialReconnectDelay :: duration where
  "initialReconnectDelay = dmul 1 Second"

definition maxReconnectDelay :: duration where
  "maxReconnectDelay = dmul 60 Second"

text \<open>
  A Go channel, at the level of the language specification: a FIFO buffer of capacity
  \<open>chcap\<close>; \<open>recvq\<close> counts the goroutines blocked in a receive on it and \<open>handed\<close>
  lists the values passed straight to such a receiver. A send on a buffered channel
  proceeds when the buffer has room; a send on an unbuffered channel proceeds when a
  receiver is ready. Otherwise the send would block.
\<close>

record 'a chan =
  chcap :: nat
  chbuf :: "'a list"
  recvq :: nat
  handed :: "'a list"

definition make_chan :: "nat \<Rightarrow> 'a chan" where
  "make_chan n = \<lparr>chcap = n, chbuf = [], recvq = 0, handed = []\<rparr>"

datatype 'a send_result = Sent "'a chan" | WouldBlock

definition chansend :: "'a chan \<Rightarrow> 'a \<Rightarrow> 'a send_result" where
  "chansend ch v =
     (if chcap ch = 0 then
        (if 0 < recvq ch
         then Sent (ch\<lparr>recvq := recvq ch - 1, handed := handed ch @ [v]\<rparr>)
         else WouldBlock)
      else if length (chbuf ch) < chcap ch
        then Sent (ch\<lparr>chbuf := chbuf ch @ [v]\<rparr>)
        else WouldBlock)"

text \<open>
  \<open>select { case ch <- v: ... default: ... }\<close> on a possibly nil channel: a send on a
  nil channel never proceeds, so the default branch is taken.
\<close>

definition select_send :: "'a chan option \<Rightarrow> 'a \<Rightarrow> 'a send_result" where
  "select_send co v = (case co of None \<Rightarrow> WouldBlock | Some ch \<Rightarrow> chansend ch v)"

section \<open>JSON decoding\<close>

text \<open>
  \<open>encoding/json\<close> is outside the package. \<open>parseJSON\<close> models the part of
  \<open>json.Unmarshal\<close> that \<open>UnmarshalDataString\<close> relies on: the whole input must be one
  JSON value, surrounded by optional white space. A number keeps its literal; string
  escapes are the two-character ones (a Unicode escape is rejected by the model). The
  fuel of \<open>scanValue\<close> bounds the nesting depth and the number of elements; the
  length of the input is always enough.
\<close>

datatype json =
    JNull
  | JBool bool
  | JNumber string
  | JString string
  | JArray "json list"
  | JObject "(string \<times> json) list"

definition dq :: char where "dq = CHR 0x22"
definition bs :: char where "bs = CHR 0x5C"

definition isSpace :: "char \<Rightarrow> bool" where
  "isSpace c = (c = CHR '' '' \<or> c = CHR 0x09 \<or> c = CHR 0x0A \<or> c = CHR 0x0D)"

definition isDigit :: "char \<Rightarrow> bool" where
  "isDigit c = (48 \<le> (of_char c :: nat) \<and> (of_char c :: nat) \<le> 57)"

definition skipws :: "string \<Rightarrow> string" where
  "skipws s = dropWhile isSpace s"

definition unescape :: "char \<Rightarrow> char option" where
  "unescape e =
     (if e = dq then Some dq
      else if e = bs then Some bs
      else if e = CHR ''/'' then Some (CHR ''/'')
      else if e = CHR ''b'' then Some (CHR 0x08)
      else if e = CHR ''f'' then Some (CHR 0x0C)
      else if e = CHR ''n'' then Some (CHR 0x0A)
      else if e = CHR ''r'' then Some (CHR 0x0D)
      else if e = CHR ''t'' then Some (CHR 0x09)
      else None)"

fun scanString :: "string \<Rightarrow> (string \<times> string) option" where
  "scanString [] = None"
| "scanString (c # cs) =
     (if c = dq then Some ([], cs)
      else if c = bs then
        (case cs of
           [] \<Rightarrow> None
         | e # rest \<Rightarrow>
             (case unescape e of
                None \<Rightarrow> None
              | Some x \<Rightarrow>
                  (case scanString rest of
                     None \<Rightarrow> None
                   | Some (str, r) \<Rightarrow> Some (x # str, r))))
      else if (of_char c :: nat) < 32 then None
      else (case scanString cs of
              None \<Rightarrow> None
            | Some (str, r) \<Rightarrow> Some (c # str, r)))"

definition scanDigits :: "string \<Rightarrow> (string \<times> string) option" where
  "scanDigits s = (let ds = takeWhile isDigit s in
                   if ds = [] then None else Some (ds, dropWhile isDigit s))"

definition scanInt :: "string \<Rightarrow> (string \<times> string) option" where
  "scanInt s =
     (case s of
        [] \<Rightarrow> None
      | c # cs \<Rightarrow> if c = CHR ''0'' then Some ([c], cs) else scanDigits s)"

definition scanFrac :: "string \<Rightarrow> (string \<times> string) option" where
  "scanFrac s =
     (case s of
        [] \<Rightarrow> Some ([], s)
      | c # cs \<Rightarrow>
          if c = CHR ''.'' then
            (case scanDigits cs of None \<Rightarrow> None | Some (ds, r) \<Rightarrow> Some (c # ds, r))
          else Some ([], s))"

definition scanExp :: "string \<Rightarrow> (string \<times> string) option" where
  "scanExp s =
     (case s of
        [] \<Rightarrow> Some ([], s)
      | c # cs \<Rightarrow>
          if c = CHR ''e'' \<or> c = CHR ''E'' then
            (case cs of
               [] \<Rightarrow> None
             | g # gs \<Rightarrow>
                 if g = CHR ''+'' \<or> g = CHR ''-'' then
                   (case scanDigits gs of None \<Rightarrow> None | Some (ds, r) \<Rightarrow> Some (c # g # ds, r))
                 else
                   (case scanDigits cs of None \<Rightarrow> None | Some (ds, r) \<Rightarrow> Some (c # ds, r)))
          else Some ([], s))"

definition scanNumber :: "string \<Rightarrow> (string \<times> string) option" where
  "scanNumber s =
     (let (sign, s1) = (case s of [] \<Rightarrow> ([], s)
                        | c # cs \<Rightarrow> if c = CHR ''-'' then ([c], cs) else ([], s)) in
      case scanInt s1 of
        None \<Rightarrow> None
      | Some (ip, s2) \<Rightarrow>
          (case scanFrac s2 of
             None \<Rightarrow> None
           | Some (fp, s3) \<Rightarrow>
               (case scanExp s3 of
                  None \<Rightarrow> None
                | Some (ep, s4) \<Rightarrow> Some (sign @ ip @ fp @ ep, s4))))"

definition scanLiteral :: "string \<Rightarrow> json \<Rightarrow> string \<Rightarrow> (json \<times> string) option" where
  "scanLiteral lit v s =
     (if take (length lit) s = lit then Some (v, drop (length lit) s) else None)"

fun scanValue :: "nat \<Rightarrow> string \<Rightarrow> (json \<times> string) option"
  and scanElems :: "nat \<Rightarrow> string \<Rightarrow> (json list \<times> string) option"
  and scanMembers :: "nat \<Rightarrow> string \<Rightarrow> ((string \<times> json) list \<times> string) option" where
  "scanValue 0 s = None"
| "scanValue (Suc n) s =
     (case skipws s of
        [] \<Rightarrow> None
      | c # cs \<Rightarrow>
          if c = CHR ''{'' then
            (case skipws cs of
               [] \<Rightarrow> None
             | d # ds \<Rightarrow>
                 if d = CHR ''}'' then Some (JObject [], ds)
                 else (case scanMembers n (d # ds) of
                         None \<Rightarrow> None
                       | Some (ms, r) \<Rightarrow> Some (JObject ms, r)))
          else if c = CHR ''['' then
            (case skipws cs of
               [] \<Rightarrow> None
             | d # ds \<Rightarrow>
                 if d = CHR '']'' then Some (JArray [], ds)
                 else (case scanElems n (d # ds) of
                         None \<Rightarrow> None
                       | Some (vs, r) \<Rightarrow> Some (JArray vs, r)))
          else if c = dq then
            (case scanString cs of None \<Rightarrow> None | Some (str, r) \<Rightarrow> Some (JString str, r))
          else if c = CHR ''t'' then scanLiteral ''true'' (JBool True) (c # cs)
          else if c = CHR ''f'' then scanLiteral ''false'' (JBool False) (c # cs)
          else if c = CHR ''n'' then scanLiteral ''null'' JNull (c # cs)
          else (case scanNumber (c # cs) of
                  None \<Rightarrow> None
                | Some (lit, r) \<Rightarrow> Some (JNumber lit, r)))"
| "scanElems 0 s = None"
| "scanElems (Suc n) s =
     (case scanValue n s of
        None \<Rightarrow> None
      | Some (v, r) \<Rightarrow>
          (case skipws r of
             [] \<Rightarrow> None
           | c # cs \<Rightarrow>
               if c = CHR '','' then
                 (case scanElems n cs of
                    None \<Rightarrow> None
                  | Some (vs, r') \<Rightarrow> Some (v # vs, r'))
               else if c = CHR '']'' then Some ([v], cs)
               else None))"
| "scanMembers 0 s = None"
| "scanMembers (Suc n) s =
     (case skipws s of
        [] \<Rightarrow> None
      | q # qs \<Rightarrow>
          if q \<noteq> dq then None
          else
            (case scanString qs of
               None \<Rightarrow> None
             | Some (k, r) \<Rightarrow>
                 (case skipws r of
                    [] \<Rightarrow> None
                  | c # cs \<Rightarrow>
                      if c \<noteq> CHR '':'' then None
                      else
                        (case scanValue n cs of
                           None \<Rightarrow> None
                         | Some (v, r1) \<Rightarrow>
                             (case skipws r1 of
                                [] \<Rightarrow> None
                              | e # es \<Rightarrow>
                                  if e = CHR '','' then
                                    (case scanMembers n es of
                                       None \<Rightarrow> None
                                     | Some (ms, r2) \<Rightarrow> Some ((k, v) # ms, r2))
                                  else if e = CHR ''}'' then Some ([(k, v)], es)
                                  else None)))))"

definition parseJSON :: "string \<Rightarrow> json option" where
  "parseJSON s =
     (case scanValue (Suc (length s)) s of
        None \<Rightarrow> None
      | Some (v, r) \<Rightarrow> if skipws r = [] then Some v else None)"

text \<open>
  \<open>json.Unmarshal(data, &dataStr)\<close> with a string destination: a JSON string is
  unquoted, \<open>null\<close> leaves the destination as it is (the empty string here), any
  other value is a type error, and invalid input is a syntax error.
\<close>

definition unmarshalString :: "string \<Rightarrow> err + string" where
  "unmarshalString data =
     (case parseJSON data of
        None \<Rightarrow> Inl (External ''invalid JSON'')
      | Some (JString s) \<Rightarrow> Inr s
      | Some JNull \<Rightarrow> Inr []
      | Some _ \<Rightarrow> Inl (External ''json: cannot unmarshal into Go value of type string''))"


text \<open>
  \<open>UnmarshalDataString(data, dest)\<close>. The destination is an \<open>interface{}\<close>, so the
  second \<open>json.Unmarshal\<close> is a parameter: \<open>unmarshalInto s d\<close> decodes \<open>s\<close> into the
  destination whose current value is \<open>d\<close>.
\<close>

definition UnmarshalDataString ::
  "(string \<Rightarrow> 'a \<Rightarrow> err + 'a) \<Rightarrow> string \<Rightarrow> 'a \<Rightarrow> err + 'a" where
  "UnmarshalDataString unmarshalInto data dest =
     (case unmarshalString data of
        Inl e \<Rightarrow> Inl (Wrapf ''failed to unmarshal data to string: '' e)
      | Inr dataStr \<Rightarrow>
          (case unmarshalInto dataStr dest of
             Inl e \<Rightarrow> Inl (Wrapf ''failed to unmarshal data string to destination: '' e)
           | Inr v \<Rightarrow> Inr v))"

section \<open>The client\<close>

record timer =
  period :: duration
  running :: bool

datatype done_state = DoneOpen | DoneClosed

text \<open>A frame: the event name, the raw JSON of its data, and the channel name.\<close>

record event =
  Event :: string
  Data :: string
  Channel :: string

text \<open>
  The transport handle \<open>*websocket.Conn\<close>: an identity, the frames written to it, and
  the number of \<open>Close\<close> calls it has received.
\<close>

record wsconn =
  ws_id :: nat
  ws_sent :: "event list"
  ws_closes :: nat

text \<open>
  The base channel, with the fields the literal in \<open>Subscribe\<close> and the tests name;
  its back-reference to the client is left out.
\<close>

record channel =
  name :: string
  subscribed :: bool
  ch_boundEvents :: "(string \<times> nat list) list"

text \<open>
  Modelled from the spec: the channel variants (channel.go is not among the sources).
  A public channel is the base channel, a private channel wraps it, and a presence
  channel is the base channel with a member roster from user id to user info.
\<close>

datatype internalChannel =
    PublicChannel channel
  | PrivateChannel channel
  | PresenceChannel channel "(string \<times> string) list"

text \<open>
  Modelled from the spec: \<open>newPresenceChannel\<close> (channel.go is not among the sources)
  makes the presence channel of a base channel, its roster empty until the server
  sends the members.
\<close>

definition newPresenceChannel :: "channel \<Rightarrow> internalChannel" where
  "newPresenceChannel b = PresenceChannel b []"

text \<open>
  The fields of \<open>Client\<close> the operations below read or write. A nil pointer, channel or
  map is \<open>None\<close>. The cancellation channel \<open>done\<close> is \<open>doneCh\<close>. The mutex is not
  modelled: every operation runs to its end alone.
\<close>

record client =
  Errors :: "err chan option"
  socketID :: string
  activityTimeout :: duration
  pongTimeout :: duration
  ws :: "wsconn option"
  connected :: bool
  activityTimer :: "timer option"
  activityTimerReset :: "unit chan option"
  pongTimer :: "timer option"
  pongReceived :: "unit chan option"
  pongFailures :: int
  ReconnectDelay :: duration
  appKey :: string
  boundEvents :: "(string \<times> nat list) list option"
  subscribedChannels :: "(string \<times> internalChannel) list option"
  doneCh :: "done_state option"

text \<open>The zero value \<open>&Client{}\<close>.\<close>

definition zeroClient :: client where
  "zeroClient = \<lparr>Errors = None, socketID = [], activityTimeout = 0, pongTimeout = 0,
     ws = None, connected = False, activityTimer = None, activityTimerReset = None,
     pongTimer = None, pongReceived = None, pongFailures = 0, ReconnectDelay = 0,
     appKey = [], boundEvents = None, subscribedChannels = None, doneCh = None\<rparr>"

definition resetActivityTimer :: "client \<Rightarrow> client" where
  "resetActivityTimer c =
     (case select_send (activityTimerReset c) () of
        Sent ch' \<Rightarrow> c\<lparr>activityTimerReset := Some ch'\<rparr>
      | WouldBlock \<Rightarrow> c)"

definition sendError :: "err \<Rightarrow> client \<Rightarrow> client" where
  "sendError e c =
     (if Errors c = None then c
      else (case select_send (Errors c) e of
              Sent ch' \<Rightarrow> c\<lparr>Errors := Some ch'\<rparr>
            | WouldBlock \<Rightarrow> c))"

text \<open>The resets waiting in the one-slot buffer (none when the channel is nil).\<close>

definition pendingResets :: "client \<Rightarrow> nat" where
  "pendingResets c = (case activityTimerReset c of None \<Rightarrow> 0 | Some ch \<Rightarrow> length (chbuf ch))"

text \<open>
  The state \<open>connectInternal\<close> leaves the reset channel in: allocated, with capacity 1
  and at most one buffered request.
\<close>

definition oneSlot :: "client \<Rightarrow> bool" where
  "oneSlot c = (case activityTimerReset c of None \<Rightarrow> False
                | Some ch \<Rightarrow> chcap ch = 1 \<and> length (chbuf ch) \<le> 1)"

section \<open>Operations of the client\<close>

text \<open>
  A call either returns or panics (a nil dereference, a close of a closed channel, a
  write to a nil map, a failed type assertion); \<open>Panics\<close> carries the client as the
  panic leaves it.
\<close>

datatype 'a result = Panics client | Returns 'a

definition pusherError :: string where
  "pusherError = ''pusher:error''"

definition pusherConnEstablished :: string where
  "pusherConnEstablished = ''pusher:connection_established''"

definition HasPrefix :: "string \<Rightarrow> string \<Rightarrow> bool" where
  "HasPrefix s p = (take (length p) s = p)"

definition min_d :: "duration \<Rightarrow> duration \<Rightarrow> duration" where
  "min_d a b = (if a < b then a else b)"

record connectionData =
  SocketID :: string
  ActivityTimeout :: int

definition zeroConnectionData :: connectionData where
  "zeroConnectionData = \<lparr>SocketID = [], ActivityTimeout = 0\<rparr>"

text \<open>
  What the operations use and the sources do not hold, as parameters:
  \<open>extractEventError\<close> (event.go), the channel methods \<open>ResetSubscriptionState\<close> and
  \<open>Subscribe\<close> (channel.go; \<open>chSubscribe ch c\<close> is \<open>ch.Subscribe()\<close> run on the
  client \<open>c\<close>), \<open>json.Unmarshal\<close> into a \<open>connectionData\<close>, and the text
  \<open>fmt\<close> prints for a duration.
\<close>

record deps =
  extractEventError :: "event \<Rightarrow> err"
  ResetSubscriptionState :: "internalChannel \<Rightarrow> internalChannel"
  chSubscribe :: "internalChannel \<Rightarrow> client \<Rightarrow> client \<times> err option"
  unmarshalConnData :: "string \<Rightarrow> connectionData \<Rightarrow> err + connectionData"
  fmtDuration :: "duration \<Rightarrow> string"

text \<open>
  What the network answers to one \<open>websocket.Dial\<close> followed by one
  \<open>websocket.JSON.Receive\<close>.
\<close>

datatype recv = RecvErr err | RecvFrame event

datatype dial = DialErr err | Dialed wsconn recv

text \<open>
  The second loop of \<open>connectInternal\<close>: for each remembered name still in the
  registry, \<open>ch.Subscribe()\<close>, its error ignored.
\<close>

definition resubscribe :: "deps \<Rightarrow> string list \<Rightarrow> client \<Rightarrow> client" where
  "resubscribe D names c =
     fold (\<lambda>channelName c.
             (case subscribedChannels c of
                None \<Rightarrow> c
              | Some m \<Rightarrow>
                  (case map_of m channelName of
                     None \<Rightarrow> c
                   | Some ch \<Rightarrow> fst (chSubscribe D ch c)))) names c"

text \<open>
  \<open>connectInternal\<close>. A failed dial stores the nil connection it returns. The map
  \<open>subscribedChannels\<close> is an association list, ranged over in list order (Go leaves
  the order open). The goroutines \<open>heartbeat\<close> and \<open>listen\<close> started here run after
  the call and are not part of it.
\<close>

definition connectInternal :: "deps \<Rightarrow> dial \<Rightarrow> client \<Rightarrow> client \<times> err option" where
  "connectInternal D a c =
     (case a of
        DialErr e \<Rightarrow> (c\<lparr>ws := None\<rparr>, Some e)
      | Dialed w r \<Rightarrow>
          (let c1 = c\<lparr>ws := Some w\<rparr> in
           case r of
             RecvErr e \<Rightarrow> (c1, Some e)
           | RecvFrame ev \<Rightarrow>
               if Event ev = pusherError then (c1, Some (extractEventError D ev))
               else if Event ev = pusherConnEstablished then
                 (case UnmarshalDataString (unmarshalConnData D) (Data ev) zeroConnectionData of
                    Inl e \<Rightarrow> (c1, Some e)
                  | Inr connData \<Rightarrow>
                      (let c2 = c1\<lparr>connected := True,
                                   doneCh := Some DoneOpen,
                                   socketID := SocketID connData,
                                   activityTimeout := dmul (ActivityTimeout connData) Second\<rparr>;
                           c3 = c2\<lparr>activityTimer :=
                                     Some \<lparr>period = activityTimeout c2, running = True\<rparr>,
                                   activityTimerReset := Some (make_chan 1),
                                   pongTimer := Some \<lparr>period = pongTimeout c2, running = False\<rparr>,
                                   pongReceived := Some (make_chan 1)\<rparr>;
                           c4 = (if boundEvents c3 = None then c3\<lparr>boundEvents := Some []\<rparr> else c3);
                           c5 = (if subscribedChannels c4 = None
                                 then c4\<lparr>subscribedChannels := Some []\<rparr> else c4);
                           m = (case subscribedChannels c5 of None \<Rightarrow> [] | Some m \<Rightarrow> m);
                           previousChannels = map fst m;
                           c6 = c5\<lparr>subscribedChannels :=
                                     Some (map (\<lambda>(n, ch). (n, ResetSubscriptionState D ch)) m)\<rparr>
                       in (resubscribe D previousChannels c6, None)))
               else (c1, Some (Errorf (''got unknown event type from Pusher: '' @ Event ev)))))"

definition Connect :: "deps \<Rightarrow> string \<Rightarrow> dial \<Rightarrow> client \<Rightarrow> client \<times> err option" where
  "Connect D key a c =
     connectInternal D a
       (c\<lparr>appKey := key,
          pongTimeout := defaultPongTimeout,
          ReconnectDelay := initialReconnectDelay,
          pongFailures := 0\<rparr>)"

text \<open>
  The backoff loop of \<open>attemptReconnect\<close>, run against the answers of the network to
  its successive attempts. It yields the client, the delays it slept, in order, and
  whether it has returned; when the answers run out the loop is still running.
\<close>

fun reconnectLoop :: "deps \<Rightarrow> dial list \<Rightarrow> client \<Rightarrow> client \<times> duration list \<times> bool" where
  "reconnectLoop D [] c = (c, [], False)"
| "reconnectLoop D (a # as) c =
     (let delay = ReconnectDelay c;
          c1 = c\<lparr>ReconnectDelay := min_d (dmul (ReconnectDelay c) 2) maxReconnectDelay\<rparr>;
          c2 = sendError (Errorf (''attempting reconnection after '' @ fmtDuration D delay)) c1;
          (c3, err) = connectInternal D a c2
      in case err of
           None \<Rightarrow> (sendError (Errorf ''reconnection successful'') c3, [delay], True)
         | Some e \<Rightarrow>
             (let c4 = sendError (Wrapf ''reconnection failed: '' e) c3;
                  (c5, ds, fin) = reconnectLoop D as c4
              in (c5, delay # ds, fin)))"

text \<open>Closing the cancellation channel: nothing for nil, a panic when it is closed.\<close>

definition closeDone :: "done_state option \<Rightarrow> done_state option option" where
  "closeDone d =
     (case d of
        None \<Rightarrow> Some None
      | Some DoneOpen \<Rightarrow> Some (Some DoneClosed)
      | Some DoneClosed \<Rightarrow> None)"

text \<open>
  \<open>(*websocket.Conn).Close\<close>: the connection counts the call. In \<open>Disconnect\<close>,
  \<open>wsClose w\<close> is the error the transport returns for the close of \<open>w\<close>.
\<close>

definition closeConn :: "wsconn \<Rightarrow> wsconn" where
  "closeConn w = w\<lparr>ws_closes := ws_closes w + 1\<rparr>"

text \<open>
  \<open>attemptReconnect\<close>: the result of the backoff loop on the client it runs on. The
  old connection is closed before the loop and the error of that close is dropped;
  the loop replaces \<open>ws\<close> at its first dial.
\<close>

definition attemptReconnect ::
  "deps \<Rightarrow> dial list \<Rightarrow> client \<Rightarrow> (client \<times> duration list \<times> bool) result" where
  "attemptReconnect D as c =
     (if \<not> connected c then Returns (c, [], True)
      else
        (case closeDone (doneCh c) of
           None \<Rightarrow> Panics c
         | Some d' \<Rightarrow>
             (let c1 = c\<lparr>doneCh := d', connected := False\<rparr> in
              case ws c1 of
                None \<Rightarrow> Panics c1
              | Some oldWs \<Rightarrow> Returns (reconnectLoop D as (c1\<lparr>ws := Some (closeConn oldWs)\<rparr>)))))"

definition Disconnect :: "(wsconn \<Rightarrow> err option) \<Rightarrow> client \<Rightarrow> (client \<times> err option) result" where
  "Disconnect wsClose c =
     (if \<not> connected c then Returns (c, None)
      else
        (case closeDone (doneCh c) of
           None \<Rightarrow> Panics c
         | Some d' \<Rightarrow>
             (let c1 = c\<lparr>doneCh := d', connected := False\<rparr> in
              case ws c1 of
                None \<Rightarrow> Panics c1
              | Some w \<Rightarrow> Returns (c1\<lparr>ws := Some (closeConn w)\<rparr>, wsClose w))))"

text \<open>
  \<open>SendEvent\<close>. \<open>marshal\<close> is \<open>json.Marshal\<close> on the caller's data and \<open>wsSend w e\<close>
  the error of \<open>websocket.JSON.Send\<close> for the frame \<open>e\<close> on \<open>w\<close> (\<open>None\<close>: the frame
  is written). A nil connection makes the send panic.
\<close>

definition SendEvent ::
  "('d \<Rightarrow> err + string) \<Rightarrow> (wsconn \<Rightarrow> event \<Rightarrow> err option) \<Rightarrow> string \<Rightarrow> 'd \<Rightarrow> string
     \<Rightarrow> client \<Rightarrow> (client \<times> err option) result" where
  "SendEvent marshal wsSend ev data channelName c =
     (case marshal data of
        Inl e \<Rightarrow> Returns (c, Some e)
      | Inr dataJSON \<Rightarrow>
          (let e = \<lparr>Event = ev, Data = dataJSON, Channel = channelName\<rparr>;
               c1 = resetActivityTimer c
           in case ws c1 of
                None \<Rightarrow> Panics c1
              | Some w \<Rightarrow>
                  (case wsSend w e of
                     Some x \<Rightarrow> Returns (c1, Some x)
                   | None \<Rightarrow> Returns (c1\<lparr>ws := Some (w\<lparr>ws_sent := ws_sent w @ [e]\<rparr>)\<rparr>, None))))"

text \<open>
  \<open>Subscribe\<close> returns the channel, the client and the error of \<open>ch.Subscribe\<close>.
  Reading a nil registry finds nothing; writing to it panics.
\<close>

definition Subscribe ::
  "deps \<Rightarrow> string \<Rightarrow> client \<Rightarrow> (internalChannel \<times> client \<times> err option) result" where
  "Subscribe D channelName c =
     (case (case subscribedChannels c of None \<Rightarrow> None | Some m \<Rightarrow> map_of m channelName) of
        Some ch \<Rightarrow> Returns (ch, chSubscribe D ch c)
      | None \<Rightarrow>
          (let baseChan = \<lparr>name = channelName, subscribed = False, ch_boundEvents = []\<rparr>;
               ch = (if HasPrefix channelName ''private-'' then PrivateChannel baseChan
                     else if HasPrefix channelName ''presence-'' then newPresenceChannel baseChan
                     else PublicChannel baseChan)
           in case subscribedChannels c of
                None \<Rightarrow> Panics c
              | Some m \<Rightarrow>
                  Returns (ch, chSubscribe D ch
                                 (c\<lparr>subscribedChannels := Some (m @ [(channelName, ch)])\<rparr>))))"

definition isPresence :: "internalChannel \<Rightarrow> bool" where
  "isPresence ch = (case ch of PresenceChannel b r \<Rightarrow> True | _ \<Rightarrow> False)"

definition SubscribePresence ::
  "deps \<Rightarrow> string \<Rightarrow> client \<Rightarrow> (internalChannel option \<times> client \<times> err option) result" where
  "SubscribePresence D channelName c =
     (if \<not> HasPrefix channelName ''presence-'' then
        Returns (None, c,
          Some (Errorf (''invalid presence channel name, must start with 'presence-': ''
                        @ channelName)))
      else
        (case Subscribe D channelName c of
           Panics c' \<Rightarrow> Panics c'
         | Returns (ch, c', subscribeErr) \<Rightarrow>
             if isPresence ch then Returns (Some ch, c', subscribeErr) else Panics c'))"

text \<open>The client a call leaves behind, whether it returns or panics.\<close>

definition finalClient :: "(client \<times> 'a) result \<Rightarrow> client" where
  "finalClient r = (case r of Panics c \<Rightarrow> c | Returns (c, x) \<Rightarrow> c)"

section \<open>Sample values\<close>

definition conn0 :: wsconn where
  "conn0 = \<lparr>ws_id = 0, ws_sent = [], ws_closes = 0\<rparr>"

definition liveClient :: client where
  "liveClient = zeroClient\<lparr>connected := True, ws := Some conn0, doneCh := Some DoneOpen,
     activityTimerReset := Some (make_chan 1)\<rparr>"

text \<open>A \<open>json.Marshal\<close> that fails on one value: \<open>False\<close> stands for data it cannot encode.\<close>

definition marshalSample :: "bool \<Rightarrow> err + string" where
  "marshalSample d = (if d then Inr ''{}'' else Inl (External ''json: unsupported type''))"



text \<open>
  Sample parameters. \<open>decodeConnectionData\<close> reads the two fields of a
  \<open>connectionData\<close> from a JSON object (an absent field keeps its value);
  \<open>sampleDeps\<close> has a \<open>Subscribe\<close> method that requests an activity reset and
  succeeds.
\<close>

definition intOfLiteral :: "string \<Rightarrow> int option" where
  "intOfLiteral s =
     (let (neg, ds) = (case s of [] \<Rightarrow> (False, s)
                       | c # cs \<Rightarrow> if c = CHR ''-'' then (True, cs) else (False, s))
      in if ds = [] \<or> \<not> list_all isDigit ds then None
         else (let n = foldl (\<lambda>n c. 10 * n + (int (of_char c) - 48)) 0 ds
               in Some (if neg then - n else n)))"

definition decodeConnectionData :: "string \<Rightarrow> connectionData \<Rightarrow> err + connectionData" where
  "decodeConnectionData s d =
     (case parseJSON s of
        Some (JObject ms) \<Rightarrow>
          (case (case map_of ms ''socket_id'' of
                   None \<Rightarrow> Some (SocketID d)
                 | Some (JString x) \<Rightarrow> Some x
                 | Some _ \<Rightarrow> None) of
             None \<Rightarrow> Inl (External ''json: cannot unmarshal into field socket_id'')
           | Some sid \<Rightarrow>
               (case (case map_of ms ''activity_timeout'' of
                        None \<Rightarrow> Some (ActivityTimeout d)
                      | Some (JNumber lit) \<Rightarrow> intOfLiteral lit
                      | Some _ \<Rightarrow> None) of
                  None \<Rightarrow> Inl (External ''json: cannot unmarshal into field activity_timeout'')
                | Some t \<Rightarrow> Inr \<lparr>SocketID = sid, ActivityTimeout = t\<rparr>))
      | _ \<Rightarrow> Inl (External ''json: cannot unmarshal into Go value of type connectionData''))"

definition sampleDeps :: deps where
  "sampleDeps = \<lparr>extractEventError = (\<lambda>ev. EventError 4001 (Data ev)),
     ResetSubscriptionState = (\<lambda>ch. ch),
     chSubscribe = (\<lambda>ch c. (resetActivityTimer c, None)),
     unmarshalConnData = decodeConnectionData,
     fmtDuration = (\<lambda>d. ''a while'')\<rparr>"

text \<open>
  The first frame of \<open>TestClientConnect\<close>: \<open>pusher:connection_established\<close> with the
  double-encoded data of socket id \<open>foo\<close> and activity timeout 1234.
\<close>

definition establishedData :: string where
  "establishedData = [dq] @ ''{'' @ [bs, dq] @ ''socket_id'' @ [bs, dq] @ '':'' @ [bs, dq] @ ''foo''
     @ [bs, dq] @ '','' @ [bs, dq] @ ''activity_timeout'' @ [bs, dq] @ '':1234}'' @ [dq]"

definition establishedFrame :: event where
  "establishedFrame = \<lparr>Event = pusherConnEstablished, Data = establishedData, Channel = []\<rparr>"

section \<open>Notions used by the properties\<close>

text \<open>
  The part of the client that \<open>ch.Subscribe()\<close>, whose code is not among the sources,
  is taken to leave alone when \<open>connectInternal\<close> calls it: the session fields, the
  capacity of the reset channel, whether the two maps are allocated, and the two
  reconnection counters. It may write frames, request activity resets and change the
  channels.
\<close>

definition session ::
  "client \<Rightarrow> (bool \<times> string \<times> duration \<times> timer option \<times> timer option \<times> nat option)
     \<times> (bool \<times> bool \<times> duration \<times> int)" where
  "session c =
     ((connected c, socketID c, activityTimeout c, activityTimer c, pongTimer c,
       map_option chcap (activityTimerReset c)),
      (boundEvents c = None, subscribedChannels c = None, ReconnectDelay c, pongFailures c))"

definition keepsSession :: "(internalChannel \<Rightarrow> client \<Rightarrow> client \<times> err option) \<Rightarrow> bool" where
  "keepsSession f = (\<forall>ch c. session (fst (f ch c)) = session c)"

text \<open>An attempt fails when the handshake on its answer returns an error.\<close>

definition attemptFails :: "deps \<Rightarrow> dial \<Rightarrow> bool" where
  "attemptFails D a = (snd (connectInternal D a zeroClient) \<noteq> None)"

text \<open>
  The backoff sequence in the words of the specification, from a first delay \<open>d0\<close>:
  each delay is the smaller of twice the one before and 60 s.
\<close>

fun specDelay :: "int \<Rightarrow> nat \<Rightarrow> int" where
  "specDelay d0 0 = d0"
| "specDelay d0 (Suc n) = min (2 * specDelay d0 n) 60000000000"

text \<open>What a run of \<open>attemptReconnect\<close> slept and whether it returned; \<open>None\<close> for a panic.\<close>

definition loopOutcome :: "(client \<times> duration list \<times> bool) result \<Rightarrow> (duration list \<times> bool) option" where
  "loopOutcome r = (case r of Panics c \<Rightarrow> None | Returns (c, ds, fin) \<Rightarrow> Some (ds, fin))"

text \<open>
  A session on sample values: \<open>sampleConnected\<close> is the client after \<open>Connect\<close> on a
  fresh client; \<open>sampleReconnected\<close> is that client after two missed pongs and a
  reconnection whose first attempt succeeds.
\<close>

definition sampleConnected :: client where
  "sampleConnected =
     fst (Connect sampleDeps ''key'' (Dialed conn0 (RecvFrame establishedFrame)) zeroClient)"

definition sampleReconnected :: client where
  "sampleReconnected =
     finalClient (attemptReconnect sampleDeps [Dialed conn0 (RecvFrame establishedFrame)]
                    (sampleConnected\<lparr>pongFailures := 2\<rparr>))"

section \<open>Properties\<close>

subsection \<open>The activity-timer reset\<close>

lemma reset_empty:
  "activityTimerReset c = Some ch \<Longrightarrow> chcap ch = 1 \<Longrightarrow> chbuf ch = [] \<Longrightarrow>
   resetActivityTimer c = c\<lparr>activityTimerReset := Some (ch\<lparr>chbuf := [()]\<rparr>)\<rparr>"
  by (simp add: resetActivityTimer_def select_send_def chansend_def)

lemma reset_full:
  "activityTimerReset c = Some ch \<Longrightarrow> chcap ch = 1 \<Longrightarrow> chbuf ch \<noteq> [] \<Longrightarrow>
   resetActivityTimer c = c"
  by (cases "chbuf ch") (simp_all add: resetActivityTimer_def select_send_def chansend_def)

lemma oneSlot_reset:
  "oneSlot c \<Longrightarrow> oneSlot (resetActivityTimer c) \<and> pendingResets (resetActivityTimer c) = 1"
  by (auto simp: oneSlot_def resetActivityTimer_def select_send_def chansend_def pendingResets_def
      split: option.splits)

lemma oneSlot_iter: "oneSlot c \<Longrightarrow> oneSlot ((resetActivityTimer ^^ n) c)"
  by (induction n) (simp_all add: oneSlot_reset)

lemma pending_iter: "oneSlot c \<Longrightarrow> pendingResets ((resetActivityTimer ^^ Suc n) c) = 1"
  using oneSlot_iter [of c n] oneSlot_reset [of "(resetActivityTimer ^^ n) c"] by simp

lemma blocked_unchanged:
  "select_send (activityTimerReset c) () = WouldBlock \<Longrightarrow> resetActivityTimer c = c"
  by (simp add: resetActivityTimer_def)

text \<open>
  C3. On a client whose reset channel is the one-slot buffer of \<open>connectInternal\<close>, a
  call of \<open>resetActivityTimer\<close> always returns: with no reset pending it puts exactly
  one request into the buffer; with one pending it changes nothing (the request is
  dropped); wherever a plain send would block, the call returns with the state
  unchanged; and after any number of calls at most one reset is pending.
\<close>

theorem resetActivityTimer_coalesces:
  assumes "oneSlot c"
  shows "(pendingResets c = 0 \<longrightarrow>
            (\<exists>ch. activityTimerReset c = Some ch \<and>
               resetActivityTimer c = c\<lparr>activityTimerReset := Some (ch\<lparr>chbuf := [()]\<rparr>)\<rparr>) \<and>
            pendingResets (resetActivityTimer c) = 1)
       \<and> (pendingResets c = 1 \<longrightarrow> resetActivityTimer c = c)
       \<and> (select_send (activityTimerReset c) () = WouldBlock \<longrightarrow> resetActivityTimer c = c)
       \<and> (\<forall>n. pendingResets ((resetActivityTimer ^^ n) c) \<le> 1)"
proof -
  from assms obtain ch where
    ch: "activityTimerReset c = Some ch" "chcap ch = 1" "length (chbuf ch) \<le> 1"
    by (auto simp: oneSlot_def split: option.splits)
  have a: "pendingResets c = 0 \<longrightarrow>
            (\<exists>ch. activityTimerReset c = Some ch \<and>
               resetActivityTimer c = c\<lparr>activityTimerReset := Some (ch\<lparr>chbuf := [()]\<rparr>)\<rparr>) \<and>
            pendingResets (resetActivityTimer c) = 1"
    using ch reset_empty [of c ch] oneSlot_reset [OF assms] by (simp add: pendingResets_def)
  have b: "pendingResets c = 1 \<longrightarrow> resetActivityTimer c = c"
    using ch reset_full [of c ch] by (cases "chbuf ch") (auto simp: pendingResets_def)
  have d: "\<forall>n. pendingResets ((resetActivityTimer ^^ n) c) \<le> 1"
  proof
    fix n show "pendingResets ((resetActivityTimer ^^ n) c) \<le> 1"
    proof (cases n)
      case 0 then show ?thesis using ch by (simp add: pendingResets_def)
    next
      case (Suc m) then show ?thesis using pending_iter [OF assms, of m] by simp
    qed
  qed
  show ?thesis using a b d blocked_unchanged by blast
qed

theorem resetActivityTimer_coalesces_witness:
  "oneSlot (zeroClient\<lparr>activityTimerReset := Some (make_chan 1)\<rparr>)
   \<and> pendingResets (resetActivityTimer (zeroClient\<lparr>activityTimerReset := Some (make_chan 1)\<rparr>)) = 1
   \<and> pendingResets ((resetActivityTimer ^^ 3) (zeroClient\<lparr>activityTimerReset := Some (make_chan 1)\<rparr>)) \<le> 1"
proof -
  have h: "oneSlot (zeroClient\<lparr>activityTimerReset := Some (make_chan 1)\<rparr>)"
    by (simp add: oneSlot_def make_chan_def)
  have p: "pendingResets (zeroClient\<lparr>activityTimerReset := Some (make_chan 1)\<rparr>) = 0"
    by (simp add: pendingResets_def make_chan_def)
  show ?thesis using h p resetActivityTimer_coalesces [OF h] by blast
qed

subsection \<open>The error sink\<close>

lemma chansend_blocks:
  "chansend ch v = WouldBlock \<longleftrightarrow>
     (if chcap ch = 0 then recvq ch = 0 else chcap ch \<le> length (chbuf ch))"
  by (auto simp: chansend_def)

text \<open>
  C8 (amended). Delivering an error to the sink always returns. The error is dropped,
  and the client is unchanged, when no sink is configured or the sink cannot take a
  value at once: an unbuffered sink with no receiver waiting, or a buffered sink whose
  buffer is full. Otherwise the error is delivered: handed to a waiting receiver of an
  unbuffered sink, or appended to the buffer of a buffered sink, whether or not a
  consumer is ready; nothing else in the client changes.
\<close>

theorem sendError_drops_or_delivers:
  "(Errors c = None \<longrightarrow> sendError e c = c)
   \<and> (\<forall>ch. Errors c = Some ch \<and> chcap ch = 0 \<and> recvq ch = 0 \<longrightarrow> sendError e c = c)
   \<and> (\<forall>ch. Errors c = Some ch \<and> 0 < chcap ch \<and> chcap ch \<le> length (chbuf ch) \<longrightarrow> sendError e c = c)
   \<and> (\<forall>ch. Errors c = Some ch \<and> chcap ch = 0 \<and> 0 < recvq ch \<longrightarrow>
         sendError e c = c\<lparr>Errors := Some (ch\<lparr>recvq := recvq ch - 1, handed := handed ch @ [e]\<rparr>)\<rparr>)
   \<and> (\<forall>ch. Errors c = Some ch \<and> 0 < chcap ch \<and> length (chbuf ch) < chcap ch \<longrightarrow>
         sendError e c = c\<lparr>Errors := Some (ch\<lparr>chbuf := chbuf ch @ [e]\<rparr>)\<rparr>)"
  by (auto simp: sendError_def select_send_def chansend_def)

theorem sendError_drops_or_delivers_witness:
  "sendError (Errorf ''x'') zeroClient = zeroClient
   \<and> sendError (Errorf ''x'') (zeroClient\<lparr>Errors := Some (make_chan 0)\<rparr>)
        = zeroClient\<lparr>Errors := Some (make_chan 0)\<rparr>
   \<and> sendError (Errorf ''x'') (zeroClient\<lparr>Errors := Some ((make_chan 0)\<lparr>recvq := 1\<rparr>)\<rparr>)
        = zeroClient\<lparr>Errors := Some ((make_chan 0)\<lparr>recvq := 0, handed := [Errorf ''x'']\<rparr>)\<rparr>
   \<and> sendError (Errorf ''x'') (zeroClient\<lparr>Errors := Some (make_chan 1)\<rparr>)
        = zeroClient\<lparr>Errors := Some ((make_chan 1)\<lparr>chbuf := [Errorf ''x'']\<rparr>)\<rparr>
   \<and> sendError (Errorf ''y'') (zeroClient\<lparr>Errors := Some ((make_chan 1)\<lparr>chbuf := [Errorf ''x'']\<rparr>)\<rparr>)
        = zeroClient\<lparr>Errors := Some ((make_chan 1)\<lparr>chbuf := [Errorf ''x'']\<rparr>)\<rparr>"
proof -
  have a: "Errors zeroClient = None" by (simp add: zeroClient_def)
  note t1 = sendError_drops_or_delivers [of zeroClient "Errorf ''x''"]
  note t2 = sendError_drops_or_delivers [of "zeroClient\<lparr>Errors := Some (make_chan 0)\<rparr>" "Errorf ''x''"]
  note t3 = sendError_drops_or_delivers [of "zeroClient\<lparr>Errors := Some ((make_chan 0)\<lparr>recvq := 1\<rparr>)\<rparr>" "Errorf ''x''"]
  note t4 = sendError_drops_or_delivers [of "zeroClient\<lparr>Errors := Some (make_chan 1)\<rparr>" "Errorf ''x''"]
  note t5 = sendError_drops_or_delivers [of "zeroClient\<lparr>Errors := Some ((make_chan 1)\<lparr>chbuf := [Errorf ''x'']\<rparr>)\<rparr>" "Errorf ''y''"]
  show ?thesis using a t1 t2 t3 t4 t5 by (simp add: make_chan_def)
qed

text \<open>
  The claim as stated fails on a buffered sink: with capacity 10, an empty buffer and
  no consumer waiting, the error is stored in the buffer, not dropped.
\<close>

theorem sendError_buffered_counterexample:
  "recvq (make_chan 10 :: err chan) = 0
   \<and> sendError (Errorf ''x'') (zeroClient\<lparr>Errors := Some (make_chan 10)\<rparr>)
       = zeroClient\<lparr>Errors := Some ((make_chan 10)\<lparr>chbuf := [Errorf ''x'']\<rparr>)\<rparr>
   \<and> sendError (Errorf ''x'') (zeroClient\<lparr>Errors := Some (make_chan 10)\<rparr>)
       \<noteq> zeroClient\<lparr>Errors := Some (make_chan 10)\<rparr>"
  by (simp add: sendError_def select_send_def chansend_def make_chan_def zeroClient_def)

subsection \<open>Disconnect\<close>

text \<open>
  C7. On a connected client with a transport and a cancellation channel that is not
  yet closed, \<open>Disconnect\<close> closes the cancellation channel (a nil one stays nil),
  marks the client disconnected, closes the transport once and returns the result of
  that close; a further \<open>Disconnect\<close> returns nil and leaves the client, and so the
  transport, as it is. On a client that is not connected \<open>Disconnect\<close> returns nil
  and changes nothing.
\<close>

theorem Disconnect_idempotent:
  "(connected c \<and> ws c = Some w \<and> doneCh c \<noteq> Some DoneClosed \<longrightarrow>
      (\<exists>c1. Disconnect wsClose c = Returns (c1, wsClose w)
          \<and> c1 = c\<lparr>doneCh := map_option (\<lambda>d. DoneClosed) (doneCh c), connected := False,
                  ws := Some (closeConn w)\<rparr>
          \<and> \<not> connected c1
          \<and> ws_closes (closeConn w) = ws_closes w + 1
          \<and> Disconnect wsClose c1 = Returns (c1, None)))
   \<and> (\<not> connected c \<longrightarrow> Disconnect wsClose c = Returns (c, None))"
  by (cases "doneCh c") (auto simp: Disconnect_def closeDone_def closeConn_def split: done_state.splits)

theorem Disconnect_idempotent_witness:
  "Disconnect (\<lambda>w. None) liveClient
     = Returns (liveClient\<lparr>doneCh := Some DoneClosed, connected := False, ws := Some (closeConn conn0)\<rparr>, None)
   \<and> Disconnect (\<lambda>w. None)
        (liveClient\<lparr>doneCh := Some DoneClosed, connected := False, ws := Some (closeConn conn0)\<rparr>)
     = Returns (liveClient\<lparr>doneCh := Some DoneClosed, connected := False, ws := Some (closeConn conn0)\<rparr>, None)
   \<and> Disconnect (\<lambda>w. None) zeroClient = Returns (zeroClient, None)"
proof -
  have l: "connected liveClient \<and> ws liveClient = Some conn0 \<and> doneCh liveClient = Some DoneOpen"
    by (simp add: liveClient_def)
  have z: "\<not> connected zeroClient" by (simp add: zeroClient_def)
  show ?thesis
    using l z Disconnect_idempotent [of liveClient conn0 "\<lambda>w. None"]
      Disconnect_idempotent [of zeroClient conn0 "\<lambda>w. None"]
    by simp
qed

subsection \<open>SendEvent\<close>

lemma ws_resetActivityTimer: "ws (resetActivityTimer c) = ws c"
  by (simp add: resetActivityTimer_def split: send_result.splits)

lemma reset_ws_id: "(resetActivityTimer c)\<lparr>ws := ws c\<rparr> = resetActivityTimer c"
  using ws_resetActivityTimer [of c] by (metis client.surjective client.update_convs(5) client.select_convs(5))

text \<open>
  C10. When the data cannot be marshaled, \<open>SendEvent\<close> returns the marshaling error
  and the client is unchanged: no frame is written and no reset is requested. When
  marshaling succeeds, the client it leaves is, but for the transport, the client
  after the reset request, whether the write succeeds, fails or panics; a failed
  write returns its error on exactly that client, and a successful one appends the
  frame to the transport.
\<close>

theorem SendEvent_marshal_error:
  "(\<forall>e. marshal data = Inl e \<longrightarrow> SendEvent marshal wsSend ev data chn c = Returns (c, Some e))
   \<and> (\<forall>j. marshal data = Inr j \<longrightarrow>
         finalClient (SendEvent marshal wsSend ev data chn c)\<lparr>ws := ws c\<rparr> = resetActivityTimer c)
   \<and> (\<forall>j w x. marshal data = Inr j \<and> ws c = Some w
         \<and> wsSend w \<lparr>Event = ev, Data = j, Channel = chn\<rparr> = Some x \<longrightarrow>
         SendEvent marshal wsSend ev data chn c = Returns (resetActivityTimer c, Some x))
   \<and> (\<forall>j w. marshal data = Inr j \<and> ws c = Some w
         \<and> wsSend w \<lparr>Event = ev, Data = j, Channel = chn\<rparr> = None \<longrightarrow>
         SendEvent marshal wsSend ev data chn c =
           Returns ((resetActivityTimer c)\<lparr>ws := Some (w\<lparr>ws_sent := ws_sent w @ [\<lparr>Event = ev, Data = j, Channel = chn\<rparr>]\<rparr>)\<rparr>, None))"
  using ws_resetActivityTimer [of c] reset_ws_id [of c]
  by (auto simp: SendEvent_def finalClient_def Let_def split: option.splits sum.splits)

theorem SendEvent_marshal_error_witness:
  "SendEvent marshalSample (\<lambda>w e. None) ''bar'' False ''foo'' liveClient
     = Returns (liveClient, Some (External ''json: unsupported type''))
   \<and> SendEvent marshalSample (\<lambda>w e. Some (External ''closed'')) ''bar'' True ''foo'' liveClient
     = Returns (resetActivityTimer liveClient, Some (External ''closed''))
   \<and> pendingResets (resetActivityTimer liveClient) = 1"
proof -
  have m: "marshalSample False = Inl (External ''json: unsupported type'')"
    "marshalSample True = Inr ''{}''"
    by (simp_all add: marshalSample_def)
  have w: "ws liveClient = Some conn0" by (simp add: liveClient_def)
  have p: "pendingResets (resetActivityTimer liveClient) = 1"
    by (simp add: liveClient_def pendingResets_def resetActivityTimer_def select_send_def
        chansend_def make_chan_def)
  show ?thesis
    using m w p
      SendEvent_marshal_error [of marshalSample False "\<lambda>w e. None" "''bar''" "''foo''" liveClient]
      SendEvent_marshal_error [of marshalSample True "\<lambda>w e. Some (External ''closed'')" "''bar''" "''foo''" liveClient]
    by simp
qed

subsection \<open>UnmarshalDataString\<close>





subsection \<open>Subscribe\<close>

lemma presence_not_private: "HasPrefix n ''presence-'' \<Longrightarrow> \<not> HasPrefix n ''private-''"
proof
  assume a: "HasPrefix n ''presence-''" and b: "HasPrefix n ''private-''"
  from a have a': "take (length ''presence-'') n = ''presence-''"
    unfolding HasPrefix_def .
  from b have b': "take (length ''private-'') n = ''private-''"
    unfolding HasPrefix_def .
  have "take (length ''private-'') (take (length ''presence-'') n) = take (length ''private-'') n"
    by (simp only: take_take) simp
  with a' b' have "take (length ''private-'') ''presence-'' = ''private-''"
    by simp
  then show False by simp
qed

lemma map_of_register:
  "map_of m n = None \<Longrightarrow> map_of (m @ [(n, ch)]) = (map_of m)(n \<mapsto> ch)"
  by (rule ext) (auto simp: map_add_def split: option.splits)

text \<open>
  C6. On a client whose registry is allocated: for a name in the registry,
  \<open>Subscribe\<close> returns the registered channel and registers nothing; for a name not
  in it, it registers exactly one new channel under that name, private for the prefix
  \<open>private-\<close>, presence for the prefix \<open>presence-\<close>, public otherwise, and returns it; a
  channel is returned whatever the error of \<open>ch.Subscribe\<close> is. \<open>SubscribePresence\<close>
  returns the invalid-name error and no channel for a name without the prefix
  \<open>presence-\<close>, and otherwise what \<open>Subscribe\<close> returns.
\<close>

theorem Subscribe_registry:
  assumes "subscribedChannels c = Some m"
  shows "(\<forall>ch. map_of m n = Some ch \<longrightarrow> Subscribe D n c = Returns (ch, chSubscribe D ch c))
    \<and> (map_of m n = None \<longrightarrow>
         (\<exists>ch. Subscribe D n c
                  = Returns (ch, chSubscribe D ch (c\<lparr>subscribedChannels := Some (m @ [(n, ch)])\<rparr>))
            \<and> map_of (m @ [(n, ch)]) = (map_of m)(n \<mapsto> ch)
            \<and> length (m @ [(n, ch)]) = Suc (length m)
            \<and> ch = (if HasPrefix n ''private-''
                    then PrivateChannel \<lparr>name = n, subscribed = False, ch_boundEvents = []\<rparr>
                    else if HasPrefix n ''presence-''
                    then PresenceChannel \<lparr>name = n, subscribed = False, ch_boundEvents = []\<rparr> []
                    else PublicChannel \<lparr>name = n, subscribed = False, ch_boundEvents = []\<rparr>)
            \<and> (HasPrefix n ''presence-'' \<longrightarrow> isPresence ch)))
    \<and> (\<exists>ch c' e. Subscribe D n c = Returns (ch, c', e))
    \<and> (\<not> HasPrefix n ''presence-'' \<longrightarrow>
         SubscribePresence D n c
           = Returns (None, c,
               Some (Errorf (''invalid presence channel name, must start with 'presence-': '' @ n))))
    \<and> (HasPrefix n ''presence-'' \<and> (\<forall>ch. map_of m n = Some ch \<longrightarrow> isPresence ch) \<longrightarrow>
         (\<exists>ch c' e. Subscribe D n c = Returns (ch, c', e)
            \<and> SubscribePresence D n c = Returns (Some ch, c', e)))"
proof -
  have pres: "HasPrefix n ''presence-'' \<Longrightarrow> \<not> HasPrefix n ''private-''"
    by (rule presence_not_private)
  show ?thesis
    using assms pres map_of_register [of m n]
    by (auto simp: Subscribe_def SubscribePresence_def Let_def newPresenceChannel_def isPresence_def
        split: option.splits prod.splits)
qed

theorem Subscribe_registry_witness:
  "Subscribe sampleDeps ''private-foo'' (liveClient\<lparr>subscribedChannels := Some []\<rparr>)
     = Returns (PrivateChannel \<lparr>name = ''private-foo'', subscribed = False, ch_boundEvents = []\<rparr>,
         resetActivityTimer (liveClient\<lparr>subscribedChannels := Some [(''private-foo'',
           PrivateChannel \<lparr>name = ''private-foo'', subscribed = False, ch_boundEvents = []\<rparr>)]\<rparr>),
         None)
   \<and> Subscribe sampleDeps ''foo''
        (liveClient\<lparr>subscribedChannels := Some [(''foo'',
           PublicChannel \<lparr>name = ''foo'', subscribed = True, ch_boundEvents = []\<rparr>)]\<rparr>)
     = Returns (PublicChannel \<lparr>name = ''foo'', subscribed = True, ch_boundEvents = []\<rparr>,
         resetActivityTimer (liveClient\<lparr>subscribedChannels := Some [(''foo'',
           PublicChannel \<lparr>name = ''foo'', subscribed = True, ch_boundEvents = []\<rparr>)]\<rparr>),
         None)
   \<and> SubscribePresence sampleDeps ''foo'' (liveClient\<lparr>subscribedChannels := Some []\<rparr>)
     = Returns (None, liveClient\<lparr>subscribedChannels := Some []\<rparr>,
         Some (Errorf (''invalid presence channel name, must start with 'presence-': '' @ ''foo'')))
   \<and> SubscribePresence sampleDeps ''presence-foo'' (liveClient\<lparr>subscribedChannels := Some []\<rparr>)
     = Returns (Some (PresenceChannel \<lparr>name = ''presence-foo'', subscribed = False, ch_boundEvents = []\<rparr> []),
         resetActivityTimer (liveClient\<lparr>subscribedChannels := Some [(''presence-foo'',
           PresenceChannel \<lparr>name = ''presence-foo'', subscribed = False, ch_boundEvents = []\<rparr> [])]\<rparr>),
         None)"
proof -
  have p: "\<not> HasPrefix ''foo'' ''presence-''" "HasPrefix ''presence-foo'' ''presence-''"
    "HasPrefix ''private-foo'' ''private-''" "\<not> HasPrefix ''presence-foo'' ''private-''"
    by (simp_all add: HasPrefix_def)
  have d: "chSubscribe sampleDeps = (\<lambda>ch c. (resetActivityTimer c, None))"
    by (simp add: sampleDeps_def)
  have r: "subscribedChannels (liveClient\<lparr>subscribedChannels := Some []\<rparr>) = Some []"
    "subscribedChannels (liveClient\<lparr>subscribedChannels := Some [(''foo'',
           PublicChannel \<lparr>name = ''foo'', subscribed = True, ch_boundEvents = []\<rparr>)]\<rparr>)
       = Some [(''foo'', PublicChannel \<lparr>name = ''foo'', subscribed = True, ch_boundEvents = []\<rparr>)]"
    by simp_all
  show ?thesis
    using p d
      Subscribe_registry [OF r(1), of "''private-foo''" sampleDeps]
      Subscribe_registry [OF r(2), of "''foo''" sampleDeps]
      Subscribe_registry [OF r(1), of "''foo''" sampleDeps]
      Subscribe_registry [OF r(1), of "''presence-foo''" sampleDeps]
    by (auto simp: isPresence_def)
qed

subsection \<open>Durations\<close>

lemma wrap64_id: "- (2 ^ 63) \<le> x \<Longrightarrow> x < 2 ^ 63 \<Longrightarrow> wrap64 x = x"
  by (simp add: wrap64_def)

lemma initialReconnectDelay_value: "initialReconnectDelay = 1000000000"
  by (simp add: initialReconnectDelay_def dmul_def Second_def wrap64_def)

lemma maxReconnectDelay_value: "maxReconnectDelay = 60000000000"
  by (simp add: maxReconnectDelay_def dmul_def Second_def wrap64_def)

lemma defaultPongTimeout_value: "defaultPongTimeout = 30000000000"
  by (simp add: defaultPongTimeout_def dmul_def Second_def wrap64_def)


lemma backoff_step:
  "0 \<le> d \<Longrightarrow> d \<le> 60000000000 \<Longrightarrow>
   min_d (dmul d 2) maxReconnectDelay = min (2 * d) 60000000000"
  by (simp add: dmul_def wrap64_id maxReconnectDelay_value min_d_def min_def)

subsection \<open>The handshake\<close>

lemma established_decodes:
  "UnmarshalDataString decodeConnectionData establishedData zeroConnectionData
     = Inr \<lparr>SocketID = ''foo'', ActivityTimeout = 1234\<rparr>"
  by code_simp

lemma session_resubscribe:
  "keepsSession (chSubscribe D) \<Longrightarrow> session (resubscribe D names c) = session c"
proof (induction names arbitrary: c)
  case Nil
  then show ?case by (simp add: resubscribe_def)
next
  case (Cons n ns)
  have step: "resubscribe D (n # ns) c =
      resubscribe D ns (case subscribedChannels c of None \<Rightarrow> c
         | Some m \<Rightarrow> (case map_of m n of None \<Rightarrow> c | Some ch \<Rightarrow> fst (chSubscribe D ch c)))"
    by (simp add: resubscribe_def)
  have "session (case subscribedChannels c of None \<Rightarrow> c
         | Some m \<Rightarrow> (case map_of m n of None \<Rightarrow> c | Some ch \<Rightarrow> fst (chSubscribe D ch c))) = session c"
    using Cons.prems by (auto simp: keepsSession_def split: option.splits)
  then show ?case using Cons.IH [OF Cons.prems] step by simp
qed

lemma connectInternal_error_any:
  "snd (connectInternal D a c) = snd (connectInternal D a c')"
  by (auto simp: connectInternal_def Let_def split: dial.splits recv.splits sum.splits)

lemma connectInternal_failed:
  "snd (connectInternal D a c) \<noteq> None \<Longrightarrow>
   fst (connectInternal D a c) = c\<lparr>ws := ws (fst (connectInternal D a c))\<rparr>"
  by (auto simp: connectInternal_def Let_def split: dial.splits recv.splits sum.splits)

lemma event_names_differ: "pusherConnEstablished \<noteq> pusherError"
  by (simp add: pusherConnEstablished_def pusherError_def)

lemma connectInternal_established:
  assumes ev: "Event ev = pusherConnEstablished"
    and dec: "UnmarshalDataString (unmarshalConnData D) (Data ev) zeroConnectionData = Inr cd"
  shows "snd (connectInternal D (Dialed w (RecvFrame ev)) c) = None"
    and "keepsSession (chSubscribe D) \<Longrightarrow>
         session (fst (connectInternal D (Dialed w (RecvFrame ev)) c)) =
           ((True, SocketID cd, dmul (ActivityTimeout cd) Second,
             Some \<lparr>period = dmul (ActivityTimeout cd) Second, running = True\<rparr>,
             Some \<lparr>period = pongTimeout c, running = False\<rparr>, Some 1),
            (False, False, ReconnectDelay c, pongFailures c))"
proof -
  show "snd (connectInternal D (Dialed w (RecvFrame ev)) c) = None"
    using ev dec event_names_differ by (simp add: connectInternal_def Let_def)
next
  assume ks: "keepsSession (chSubscribe D)"
  show "session (fst (connectInternal D (Dialed w (RecvFrame ev)) c)) =
           ((True, SocketID cd, dmul (ActivityTimeout cd) Second,
             Some \<lparr>period = dmul (ActivityTimeout cd) Second, running = True\<rparr>,
             Some \<lparr>period = pongTimeout c, running = False\<rparr>, Some 1),
            (False, False, ReconnectDelay c, pongFailures c))"
    using ev dec event_names_differ
    by (simp add: connectInternal_def Let_def session_resubscribe [OF ks])
       (simp add: session_def make_chan_def)
qed

lemma session_resetActivityTimer: "session (resetActivityTimer c) = session c"
  by (auto simp: session_def resetActivityTimer_def select_send_def chansend_def
      split: option.splits)

lemma sampleDeps_keepsSession: "keepsSession (chSubscribe sampleDeps)"
  by (simp add: keepsSession_def sampleDeps_def session_resetActivityTimer)



subsection \<open>The reconnection loop\<close>

lemma resubscribe_counters:
  assumes "keepsSession (chSubscribe D)"
  shows "ReconnectDelay (resubscribe D ns c) = ReconnectDelay c"
    and "pongFailures (resubscribe D ns c) = pongFailures c"
  using session_resubscribe [OF assms, of ns c] by (simp_all add: session_def)

lemma sendError_counters:
  "ReconnectDelay (sendError e c) = ReconnectDelay c"
  "pongFailures (sendError e c) = pongFailures c"
  "connected (sendError e c) = connected c"
  by (simp_all add: sendError_def split: send_result.splits)

lemma specDelay_shift: "specDelay (min (2 * d) 60000000000) n = specDelay d (Suc n)"
  by (induction n) simp_all

lemma specDelay_range:
  "0 \<le> d \<Longrightarrow> d \<le> 60000000000 \<Longrightarrow> 0 \<le> specDelay d n \<and> specDelay d n \<le> 60000000000"
  by (induction n) auto

lemma specDelay_capped:
  "specDelay d n = 60000000000 \<Longrightarrow> specDelay d (n + m) = 60000000000"
  by (induction m) simp_all

lemma specDelay_six: "specDelay 1000000000 6 = 60000000000"
  by code_simp

lemma specDelay_initial: "6 \<le> n \<Longrightarrow> specDelay 1000000000 n = 60000000000"
proof -
  assume "6 \<le> n"
  then obtain m where "n = 6 + m" using le_Suc_ex by blast
  then show ?thesis using specDelay_capped [OF specDelay_six, of m] by simp
qed

lemma upt_delays: "map f [0..<Suc n] = f 0 # map (\<lambda>k. f (Suc k)) [0..<n]"
  by (induction n) simp_all

lemma connectInternal_counters:
  assumes ks: "keepsSession (chSubscribe D)"
  shows "ReconnectDelay (fst (connectInternal D a c)) = ReconnectDelay c
       \<and> pongFailures (fst (connectInternal D a c)) = pongFailures c"
proof (cases "snd (connectInternal D a c)")
  case (Some e)
  then have "fst (connectInternal D a c) = c\<lparr>ws := ws (fst (connectInternal D a c))\<rparr>"
    using connectInternal_failed [of D a c] by simp
  then have "ReconnectDelay (fst (connectInternal D a c))
               = ReconnectDelay (c\<lparr>ws := ws (fst (connectInternal D a c))\<rparr>)"
    and "pongFailures (fst (connectInternal D a c))
               = pongFailures (c\<lparr>ws := ws (fst (connectInternal D a c))\<rparr>)"
    by simp_all
  then show ?thesis by simp
next
  case None
  show ?thesis
  proof (cases a)
    case (DialErr e)
    with None show ?thesis by (simp add: connectInternal_def)
  next
    case (Dialed w r)
    show ?thesis
    proof (cases r)
      case (RecvErr e)
      with None Dialed show ?thesis by (simp add: connectInternal_def)
    next
      case (RecvFrame ev)
      from None Dialed RecvFrame have ev: "Event ev = pusherConnEstablished"
        by (simp add: connectInternal_def Let_def split: if_splits)
      from None Dialed RecvFrame ev obtain cd where
        dec: "UnmarshalDataString (unmarshalConnData D) (Data ev) zeroConnectionData = Inr cd"
        by (cases "UnmarshalDataString (unmarshalConnData D) (Data ev) zeroConnectionData")
           (simp_all add: connectInternal_def Let_def event_names_differ)
      show ?thesis
        using connectInternal_established(2) [OF ev dec ks, of w c] Dialed RecvFrame
        by (simp add: session_def)
    qed
  qed
qed

lemma reconnectLoop_failed_step:
  assumes "attemptFails D a"
  shows "\<exists>c4. ReconnectDelay c4 = min_d (dmul (ReconnectDelay c) 2) maxReconnectDelay
            \<and> pongFailures c4 = pongFailures c
            \<and> reconnectLoop D (a # as) c =
                (case reconnectLoop D as c4 of (c5, ds, fin) \<Rightarrow> (c5, ReconnectDelay c # ds, fin))"
proof -
  let ?c2 = "sendError (Errorf (''attempting reconnection after '' @ fmtDuration D (ReconnectDelay c)))
      (c\<lparr>ReconnectDelay := min_d (dmul (ReconnectDelay c) 2) maxReconnectDelay\<rparr>)"
  obtain c3 err where r: "connectInternal D a ?c2 = (c3, err)"
    by (cases "connectInternal D a ?c2")
  from assms have "err \<noteq> None"
    using connectInternal_error_any [of D a ?c2 zeroClient] r by (simp add: attemptFails_def)
  then obtain e where e: "err = Some e" by auto
  have c3: "c3 = ?c2\<lparr>ws := ws c3\<rparr>"
    using connectInternal_failed [of D a ?c2] r e by simp
  let ?c4 = "sendError (Wrapf ''reconnection failed: '' e) c3"
  have "ReconnectDelay c3 = ReconnectDelay (?c2\<lparr>ws := ws c3\<rparr>)"
    and "pongFailures c3 = pongFailures (?c2\<lparr>ws := ws c3\<rparr>)"
    using c3 by simp_all
  then have rd: "ReconnectDelay ?c4 = min_d (dmul (ReconnectDelay c) 2) maxReconnectDelay"
    and pf: "pongFailures ?c4 = pongFailures c"
    by (simp_all add: sendError_counters)
  have step: "reconnectLoop D (a # as) c =
      (case reconnectLoop D as ?c4 of (c5, ds, fin) \<Rightarrow> (c5, ReconnectDelay c # ds, fin))"
    using r e by (simp add: Let_def)
  from rd pf step show ?thesis by blast
qed

lemma reconnectLoop_failing:
  assumes "\<forall>a\<in>set as. attemptFails D a"
    and "0 \<le> ReconnectDelay c" and "ReconnectDelay c \<le> 60000000000"
  shows "\<exists>c'. reconnectLoop D as c
             = (c', map (specDelay (ReconnectDelay c)) [0..<length as], False)
           \<and> ReconnectDelay c' = specDelay (ReconnectDelay c) (length as)
           \<and> pongFailures c' = pongFailures c"
  using assms
proof (induction as arbitrary: c)
  case Nil
  then show ?case by simp
next
  case (Cons a as)
  from Cons.prems(1) have fa: "attemptFails D a" and fas: "\<forall>a\<in>set as. attemptFails D a"
    by simp_all
  from reconnectLoop_failed_step [OF fa, of c as] obtain c4 where
    rd: "ReconnectDelay c4 = min_d (dmul (ReconnectDelay c) 2) maxReconnectDelay"
    and pf: "pongFailures c4 = pongFailures c"
    and step: "reconnectLoop D (a # as) c =
        (case reconnectLoop D as c4 of (c5, ds, fin) \<Rightarrow> (c5, ReconnectDelay c # ds, fin))"
    by blast
  have rd': "ReconnectDelay c4 = min (2 * ReconnectDelay c) 60000000000"
    using rd backoff_step [OF Cons.prems(2) Cons.prems(3)] by simp
  have range: "0 \<le> ReconnectDelay c4" "ReconnectDelay c4 \<le> 60000000000"
    using rd' Cons.prems(2) by simp_all
  from Cons.IH [OF fas range] obtain c' where
    ih: "reconnectLoop D as c4 = (c', map (specDelay (ReconnectDelay c4)) [0..<length as], False)"
    and ihrd: "ReconnectDelay c' = specDelay (ReconnectDelay c4) (length as)"
    and ihpf: "pongFailures c' = pongFailures c4"
    by blast
  have sh: "\<And>n. specDelay (ReconnectDelay c4) n = specDelay (ReconnectDelay c) (Suc n)"
    unfolding rd' by (rule specDelay_shift)
  have "map (specDelay (ReconnectDelay c)) [0..<length (a # as)]
         = ReconnectDelay c # map (specDelay (ReconnectDelay c4)) [0..<length as]"
    using upt_delays [of "specDelay (ReconnectDelay c)" "length as"] sh by simp
  then have "reconnectLoop D (a # as) c
      = (c', map (specDelay (ReconnectDelay c)) [0..<length (a # as)], False)"
    using step ih by simp
  moreover have "ReconnectDelay c' = specDelay (ReconnectDelay c) (length (a # as))"
    using ihrd sh by simp
  moreover have "pongFailures c' = pongFailures c"
    using ihpf pf by simp
  ultimately show ?case by blast
qed

lemma sendError_fields:
  "ws (sendError e c) = ws c"
  "doneCh (sendError e c) = doneCh c"
  "subscribedChannels (sendError e c) = subscribedChannels c"
  by (simp_all add: sendError_def split: send_result.splits)

lemma reconnectLoop_success_step:
  assumes "\<not> attemptFails D a"
  shows "reconnectLoop D (a # as) c =
     (sendError (Errorf ''reconnection successful'')
        (fst (connectInternal D a
           (sendError (Errorf (''attempting reconnection after '' @ fmtDuration D (ReconnectDelay c)))
              (c\<lparr>ReconnectDelay := min_d (dmul (ReconnectDelay c) 2) maxReconnectDelay\<rparr>)))),
      [ReconnectDelay c], True)"
proof -
  let ?c2 = "sendError (Errorf (''attempting reconnection after '' @ fmtDuration D (ReconnectDelay c)))
      (c\<lparr>ReconnectDelay := min_d (dmul (ReconnectDelay c) 2) maxReconnectDelay\<rparr>)"
  obtain c3 err where r: "connectInternal D a ?c2 = (c3, err)"
    by (cases "connectInternal D a ?c2")
  from assms have "err = None"
    using connectInternal_error_any [of D a ?c2 zeroClient] r by (simp add: attemptFails_def)
  with r show ?thesis by (simp add: Let_def)
qed

lemma attemptReconnect_runs:
  assumes "connected c" and "ws c = Some w" and "doneCh c \<noteq> Some DoneClosed"
  shows "attemptReconnect D as c =
     Returns (reconnectLoop D as
       (c\<lparr>doneCh := map_option (\<lambda>d. DoneClosed) (doneCh c), connected := False,
          ws := Some (closeConn w)\<rparr>))"
  using assms
  by (cases "doneCh c") (auto simp: attemptReconnect_def closeDone_def split: done_state.splits)

lemma connectInternal_established_fresh:
  assumes ev: "Event ev = pusherConnEstablished"
    and dec: "UnmarshalDataString (unmarshalConnData D) (Data ev) zeroConnectionData = Inr cd"
    and reg: "subscribedChannels c = None \<or> subscribedChannels c = Some []"
  shows "fst (connectInternal D (Dialed w (RecvFrame ev)) c) =
     c\<lparr>ws := Some w, connected := True, doneCh := Some DoneOpen, socketID := SocketID cd,
       activityTimeout := dmul (ActivityTimeout cd) Second,
       activityTimer := Some \<lparr>period = dmul (ActivityTimeout cd) Second, running = True\<rparr>,
       activityTimerReset := Some (make_chan 1),
       pongTimer := Some \<lparr>period = pongTimeout c, running = False\<rparr>,
       pongReceived := Some (make_chan 1),
       boundEvents := Some (case boundEvents c of None \<Rightarrow> [] | Some b \<Rightarrow> b),
       subscribedChannels := Some []\<rparr>"
  using ev dec reg event_names_differ
  by (cases "boundEvents c")
     (auto simp: connectInternal_def Let_def resubscribe_def)

lemma sample_event: "Event establishedFrame = pusherConnEstablished"
  by (simp add: establishedFrame_def)

lemma sample_decodes:
  "UnmarshalDataString (unmarshalConnData sampleDeps) (Data establishedFrame) zeroConnectionData
     = Inr \<lparr>SocketID = ''foo'', ActivityTimeout = 1234\<rparr>"
  using established_decodes by (simp add: sampleDeps_def establishedFrame_def)

lemma sample_succeeds: "\<not> attemptFails sampleDeps (Dialed conn0 (RecvFrame establishedFrame))"
  using connectInternal_established(1) [OF sample_event sample_decodes, of conn0 zeroClient]
  by (simp add: attemptFails_def)

lemma sample_refused: "attemptFails sampleDeps (DialErr (External ''connection refused''))"
  by (simp add: attemptFails_def connectInternal_def)

lemma sampleConnected_fields:
  "connected sampleConnected" "ws sampleConnected = Some conn0"
  "doneCh sampleConnected = Some DoneOpen" "ReconnectDelay sampleConnected = 1000000000"
  "pongFailures sampleConnected = 0" "subscribedChannels sampleConnected = Some []"
  unfolding sampleConnected_def Connect_def
  by (simp_all add: connectInternal_established_fresh [OF sample_event sample_decodes]
      zeroClient_def initialReconnectDelay_value)

lemma sampleReconnected_run:
  "attemptReconnect sampleDeps [Dialed conn0 (RecvFrame establishedFrame)]
     (sampleConnected\<lparr>pongFailures := 2\<rparr>)
   = Returns (sampleReconnected, [1000000000], True)"
proof -
  have run: "attemptReconnect sampleDeps [Dialed conn0 (RecvFrame establishedFrame)]
       (sampleConnected\<lparr>pongFailures := 2\<rparr>)
     = Returns (reconnectLoop sampleDeps [Dialed conn0 (RecvFrame establishedFrame)]
         (sampleConnected\<lparr>pongFailures := 2,
            doneCh := map_option (\<lambda>d. DoneClosed) (doneCh (sampleConnected\<lparr>pongFailures := 2\<rparr>)),
            connected := False, ws := Some (closeConn conn0)\<rparr>))"
    using attemptReconnect_runs [of "sampleConnected\<lparr>pongFailures := 2\<rparr>" conn0 sampleDeps
        "[Dialed conn0 (RecvFrame establishedFrame)]"]
    by (simp add: sampleConnected_fields)
  show ?thesis
    unfolding sampleReconnected_def run
    by (simp add: reconnectLoop_success_step [OF sample_succeeds] finalClient_def
        sampleConnected_fields del: reconnectLoop.simps)
qed

lemma sampleReconnected_fields:
  "connected sampleReconnected" "ws sampleReconnected = Some conn0"
  "doneCh sampleReconnected = Some DoneOpen" "ReconnectDelay sampleReconnected = 2000000000"
  "pongFailures sampleReconnected = 2"
proof -
  have run: "attemptReconnect sampleDeps [Dialed conn0 (RecvFrame establishedFrame)]
       (sampleConnected\<lparr>pongFailures := 2\<rparr>)
     = Returns (reconnectLoop sampleDeps [Dialed conn0 (RecvFrame establishedFrame)]
         (sampleConnected\<lparr>pongFailures := 2,
            doneCh := map_option (\<lambda>d. DoneClosed) (doneCh (sampleConnected\<lparr>pongFailures := 2\<rparr>)),
            connected := False, ws := Some (closeConn conn0)\<rparr>))"
    using attemptReconnect_runs [of "sampleConnected\<lparr>pongFailures := 2\<rparr>" conn0 sampleDeps
        "[Dialed conn0 (RecvFrame establishedFrame)]"]
    by (simp add: sampleConnected_fields)
  have reg: "\<And>e c. subscribedChannels c = Some [] \<Longrightarrow>
      subscribedChannels (sendError e c) = None \<or> subscribedChannels (sendError e c) = Some []"
    by (simp add: sendError_fields)
  have two: "min_d (dmul 1000000000 2) maxReconnectDelay = 2000000000"
    using backoff_step [of 1000000000] by simp
  show "connected sampleReconnected" "ws sampleReconnected = Some conn0"
    "doneCh sampleReconnected = Some DoneOpen" "ReconnectDelay sampleReconnected = 2000000000"
    "pongFailures sampleReconnected = 2"
    unfolding sampleReconnected_def run
    by (simp_all add: reconnectLoop_success_step [OF sample_succeeds] finalClient_def
        sampleConnected_fields sendError_fields sendError_counters two
        connectInternal_established_fresh [OF sample_event sample_decodes reg]
        del: reconnectLoop.simps)
qed

subsection \<open>The result of Connect\<close>





subsection \<open>What a handshake does to the reconnection counters\<close>

text \<open>
  C1 (amended). \<open>Connect\<close> sets the reconnect delay to 1 s and the count of missed
  pongs to 0 before the handshake, and the handshake itself changes neither; so both
  hold these values when \<open>Connect\<close> returns, whatever the network answered. A
  handshake run by the reconnection loop resets neither: when an attempt succeeds
  after a sleep of \<open>d\<close> (between 0 and 60 s), the loop returns with a reconnect delay
  of \<open>min (2 d) (60 s)\<close> and with the count of missed pongs it started with.
  The channels' \<open>Subscribe\<close> is taken to leave the session fields alone.
\<close>

theorem handshake_counters:
  assumes ks: "keepsSession (chSubscribe D)"
  shows "ReconnectDelay (fst (Connect D key a c)) = 1000000000
       \<and> pongFailures (fst (Connect D key a c)) = 0
       \<and> ReconnectDelay (fst (connectInternal D a c)) = ReconnectDelay c
       \<and> pongFailures (fst (connectInternal D a c)) = pongFailures c
       \<and> (\<not> attemptFails D a \<and> 0 \<le> ReconnectDelay c \<and> ReconnectDelay c \<le> 60000000000 \<longrightarrow>
            (\<exists>c'. reconnectLoop D (a # as) c = (c', [ReconnectDelay c], True)
               \<and> ReconnectDelay c' = min (2 * ReconnectDelay c) 60000000000
               \<and> pongFailures c' = pongFailures c))"
proof -
  have a: "ReconnectDelay (fst (Connect D key a c)) = 1000000000
       \<and> pongFailures (fst (Connect D key a c)) = 0"
    unfolding Connect_def
    using connectInternal_counters [OF ks, of a "c\<lparr>appKey := key, pongTimeout := defaultPongTimeout,
        ReconnectDelay := initialReconnectDelay, pongFailures := 0\<rparr>"]
    by (simp add: initialReconnectDelay_value)
  have b: "ReconnectDelay (fst (connectInternal D a c)) = ReconnectDelay c
       \<and> pongFailures (fst (connectInternal D a c)) = pongFailures c"
    by (rule connectInternal_counters [OF ks])
  have d: "\<not> attemptFails D a \<and> 0 \<le> ReconnectDelay c \<and> ReconnectDelay c \<le> 60000000000 \<longrightarrow>
            (\<exists>c'. reconnectLoop D (a # as) c = (c', [ReconnectDelay c], True)
               \<and> ReconnectDelay c' = min (2 * ReconnectDelay c) 60000000000
               \<and> pongFailures c' = pongFailures c)"
  proof
    assume h: "\<not> attemptFails D a \<and> 0 \<le> ReconnectDelay c \<and> ReconnectDelay c \<le> 60000000000"
    let ?c2 = "sendError (Errorf (''attempting reconnection after '' @ fmtDuration D (ReconnectDelay c)))
      (c\<lparr>ReconnectDelay := min_d (dmul (ReconnectDelay c) 2) maxReconnectDelay\<rparr>)"
    let ?c' = "sendError (Errorf ''reconnection successful'') (fst (connectInternal D a ?c2))"
    have s: "reconnectLoop D (a # as) c = (?c', [ReconnectDelay c], True)"
      using h by (intro reconnectLoop_success_step) simp
    have "ReconnectDelay ?c' = min_d (dmul (ReconnectDelay c) 2) maxReconnectDelay"
      using connectInternal_counters [OF ks, of a ?c2] by (simp add: sendError_counters)
    then have rd: "ReconnectDelay ?c' = min (2 * ReconnectDelay c) 60000000000"
      using h backoff_step [of "ReconnectDelay c"] by simp
    have pf: "pongFailures ?c' = pongFailures c"
      using connectInternal_counters [OF ks, of a ?c2] by (simp add: sendError_counters)
    from s rd pf show "\<exists>c'. reconnectLoop D (a # as) c = (c', [ReconnectDelay c], True)
               \<and> ReconnectDelay c' = min (2 * ReconnectDelay c) 60000000000
               \<and> pongFailures c' = pongFailures c"
      by blast
  qed
  from a b d show ?thesis by blast
qed

theorem handshake_counters_witness:
  "ReconnectDelay (fst (Connect sampleDeps ''key'' (Dialed conn0 (RecvFrame establishedFrame))
       (zeroClient\<lparr>ReconnectDelay := 4000000000, pongFailures := 2\<rparr>))) = 1000000000
   \<and> pongFailures (fst (Connect sampleDeps ''key'' (Dialed conn0 (RecvFrame establishedFrame))
       (zeroClient\<lparr>ReconnectDelay := 4000000000, pongFailures := 2\<rparr>))) = 0
   \<and> (\<exists>c'. reconnectLoop sampleDeps [Dialed conn0 (RecvFrame establishedFrame)]
           (zeroClient\<lparr>ReconnectDelay := 4000000000, pongFailures := 2\<rparr>)
         = (c', [4000000000], True)
        \<and> ReconnectDelay c' = 8000000000 \<and> pongFailures c' = 2)"
  using sample_succeeds
    handshake_counters [OF sampleDeps_keepsSession, of "''key''"
      "Dialed conn0 (RecvFrame establishedFrame)"
      "zeroClient\<lparr>ReconnectDelay := 4000000000, pongFailures := 2\<rparr>" "[]"]
  by (simp del: reconnectLoop.simps)

text \<open>
  The claim as stated fails for the reconnection loop: after \<open>Connect\<close>, two missed
  pongs and a reconnection whose first handshake succeeds, the client is connected
  with a reconnect delay of 2 s and a count of missed pongs of 2.
\<close>

theorem reconnect_keeps_counters_counterexample:
  "attemptReconnect sampleDeps [Dialed conn0 (RecvFrame establishedFrame)]
     (sampleConnected\<lparr>pongFailures := 2\<rparr>)
     = Returns (sampleReconnected, [1000000000], True)
   \<and> connected sampleReconnected
   \<and> ReconnectDelay sampleReconnected = 2000000000
   \<and> ReconnectDelay sampleReconnected \<noteq> initialReconnectDelay
   \<and> pongFailures sampleReconnected = 2"
  using sampleReconnected_run sampleReconnected_fields
  by (simp add: initialReconnectDelay_value)

subsection \<open>Backoff under sustained failure\<close>

text \<open>
  C2 (amended). Let \<open>attemptReconnect\<close> start on a connected client whose reconnect
  delay \<open>d0\<close> lies between 0 and 60 s, and let every attempt fail. Then, for every
  number of attempts, the loop has not returned, and the delays it slept are
  \<open>d 0 = d0\<close> and \<open>d (n + 1) = min (2 * d n) (60 s)\<close>; every delay is at most 60 s, and
  a delay of 60 s is followed by delays of 60 s only. When the loop starts from the
  initial delay, as after \<open>Connect\<close>, \<open>d 0\<close> is 1 s and every delay from the seventh on
  is 60 s.
\<close>

theorem attemptReconnect_backoff:
  assumes fails: "\<forall>a\<in>set as. attemptFails D a"
    and conn: "connected c" "ws c = Some w" "doneCh c \<noteq> Some DoneClosed"
    and range: "0 \<le> ReconnectDelay c" "ReconnectDelay c \<le> 60000000000"
  shows "loopOutcome (attemptReconnect D as c)
           = Some (map (specDelay (ReconnectDelay c)) [0..<length as], False)
       \<and> ReconnectDelay (finalClient (attemptReconnect D as c))
           = specDelay (ReconnectDelay c) (length as)
       \<and> (\<forall>n. specDelay (ReconnectDelay c) n \<le> 60000000000)
       \<and> (\<forall>n m. specDelay (ReconnectDelay c) n = 60000000000 \<longrightarrow>
                  specDelay (ReconnectDelay c) (n + m) = 60000000000)
       \<and> (ReconnectDelay c = initialReconnectDelay \<longrightarrow>
            specDelay (ReconnectDelay c) 0 = 1000000000
            \<and> (\<forall>n\<ge>6. specDelay (ReconnectDelay c) n = 60000000000))"
proof -
  let ?c1 = "c\<lparr>doneCh := map_option (\<lambda>d. DoneClosed) (doneCh c), connected := False,
          ws := Some (closeConn w)\<rparr>"
  have run: "attemptReconnect D as c = Returns (reconnectLoop D as ?c1)"
    by (rule attemptReconnect_runs [OF conn])
  have rd1: "ReconnectDelay ?c1 = ReconnectDelay c" by simp
  from reconnectLoop_failing [OF fails, of ?c1] range obtain c' where
    loop: "reconnectLoop D as ?c1 = (c', map (specDelay (ReconnectDelay c)) [0..<length as], False)"
    and rd: "ReconnectDelay c' = specDelay (ReconnectDelay c) (length as)"
    unfolding rd1 by blast
  have a: "loopOutcome (attemptReconnect D as c)
           = Some (map (specDelay (ReconnectDelay c)) [0..<length as], False)"
    unfolding run loop by (simp add: loopOutcome_def)
  have b: "ReconnectDelay (finalClient (attemptReconnect D as c))
           = specDelay (ReconnectDelay c) (length as)"
    unfolding run loop using rd by (simp add: finalClient_def)
  have d: "\<forall>n. specDelay (ReconnectDelay c) n \<le> 60000000000"
    using specDelay_range [OF range] by blast
  have e: "\<forall>n m. specDelay (ReconnectDelay c) n = 60000000000 \<longrightarrow>
                  specDelay (ReconnectDelay c) (n + m) = 60000000000"
    using specDelay_capped by blast
  have f: "ReconnectDelay c = initialReconnectDelay \<longrightarrow>
            specDelay (ReconnectDelay c) 0 = 1000000000
            \<and> (\<forall>n\<ge>6. specDelay (ReconnectDelay c) n = 60000000000)"
    using specDelay_initial by (simp add: initialReconnectDelay_value)
  from a b d e f show ?thesis by blast
qed

theorem attemptReconnect_backoff_witness:
  "loopOutcome (attemptReconnect sampleDeps
       (replicate 8 (DialErr (External ''connection refused''))) sampleConnected)
     = Some ([1000000000, 2000000000, 4000000000, 8000000000, 16000000000, 32000000000,
              60000000000, 60000000000], False)
   \<and> ReconnectDelay (finalClient (attemptReconnect sampleDeps
       (replicate 8 (DialErr (External ''connection refused''))) sampleConnected)) = 60000000000"
proof -
  have fails: "\<forall>a\<in>set (replicate 8 (DialErr (External ''connection refused''))).
      attemptFails sampleDeps a"
    using sample_refused by simp
  have ds: "map (specDelay 1000000000) [0..<8]
      = [1000000000, 2000000000, 4000000000, 8000000000, 16000000000, 32000000000,
         60000000000, 60000000000]"
    by code_simp
  have last: "specDelay 1000000000 8 = 60000000000"
    by code_simp
  show ?thesis
    using ds last
      attemptReconnect_backoff [OF fails sampleConnected_fields(1) sampleConnected_fields(2)]
    by (simp add: sampleConnected_fields)
qed

text \<open>
  The claim as stated fails for a reconnection that follows a successful one with no
  pong in between: its first delay is the 2 s the earlier loop left, not 1 s.
\<close>

theorem second_reconnect_counterexample:
  "loopOutcome (attemptReconnect sampleDeps [DialErr (External ''connection refused'')]
       sampleReconnected)
     = Some ([2000000000], False)
   \<and> initialReconnectDelay = 1000000000"
proof -
  have run: "attemptReconnect sampleDeps [DialErr (External ''connection refused'')] sampleReconnected
     = Returns (reconnectLoop sampleDeps [DialErr (External ''connection refused'')]
         (sampleReconnected\<lparr>doneCh := map_option (\<lambda>d. DoneClosed) (doneCh sampleReconnected),
            connected := False, ws := Some (closeConn conn0)\<rparr>))"
    by (rule attemptReconnect_runs) (simp_all add: sampleReconnected_fields)
  have "\<forall>a\<in>set [DialErr (External ''connection refused'')]. attemptFails sampleDeps a"
    using sample_refused by simp
  from reconnectLoop_failing [OF this,
      of "sampleReconnected\<lparr>doneCh := map_option (\<lambda>d. DoneClosed) (doneCh sampleReconnected),
            connected := False, ws := Some (closeConn conn0)\<rparr>"]
  obtain c' where "reconnectLoop sampleDeps [DialErr (External ''connection refused'')]
         (sampleReconnected\<lparr>doneCh := map_option (\<lambda>d. DoneClosed) (doneCh sampleReconnected),
            connected := False, ws := Some (closeConn conn0)\<rparr>) = (c', [2000000000], False)"
    by (auto simp: sampleReconnected_fields simp del: reconnectLoop.simps)
  then show ?thesis
    unfolding run by (simp add: loopOutcome_def initialReconnectDelay_value)
qed

end
